theory Spec2Isabelle
  imports Complex_Main "HOL-Library.Sublist"
begin

section \<open>The Timeless title card: data model\<close>

text \<open>
  The module \<^verbatim>\<open>Timeless/card_types/TimelessTitleCard.py\<close> assembles a list of
  ImageMagick sub-commands. Python's \<^verbatim>\<open>str\<close> is a sequence of Unicode code points,
  so such a string is a list of code points; \<open>str\<close> turns an ASCII literal of the source
  into one.
\<close>

type_synonym unicode = "nat list"

definition str :: "string \<Rightarrow> unicode" where
  "str s = map of_char s"

text \<open>
  Every element of a command list is an f-string of the source. Each template is one
  constructor, and its arguments are the values the f-string interpolates:
  \<^verbatim>\<open>f'-font "{p}"'\<close> is \<open>Font p\<close>, \<^verbatim>\<open>f'-annotate +0{o:+} "{t}"'\<close> is \<open>Annotate o t\<close>,
  \<^verbatim>\<open>f'"{p}"'\<close> is \<open>Quoted p\<close>, and a word without a slot is \<open>Plain\<close>.
\<close>

datatype command =
    Plain unicode
  | Quoted unicode
  | Font unicode
  | Gravity unicode
  | Pointsize real
  | Kerning int
  | Interline_Spacing int
  | Background unicode
  | Fill unicode
  | Annotate int unicode

text \<open>
  The calls made on \<^verbatim>\<open>self.image_magick\<close>, in the order they are made:
  \<^verbatim>\<open>get_text_dimensions(commands, interline_spacing=, line_count=)\<close> and
  \<^verbatim>\<open>run(commands)\<close>.
\<close>

datatype magick_call =
    Get_Text_Dimensions "command list" int nat
  | Run "command list"

text \<open>
  What the module takes from outside: the ImageMagick interface and the base card type
  (\<^verbatim>\<open>escape_chars\<close>, \<^verbatim>\<open>get_text_dimensions\<close>, \<^verbatim>\<open>resize_and_style\<close>,
  \<^verbatim>\<open>add_overlay_mask\<close>, \<^verbatim>\<open>resize_output\<close>) and the file system
  (\<^verbatim>\<open>Path.resolve\<close>, the directory \<^verbatim>\<open>REF_DIRECTORY\<close>). The renderer is an
  external process: its answer to a measurement may depend on the calls made before,
  which it is given as first argument.
\<close>

record env =
  escape_chars :: "unicode \<Rightarrow> unicode"
  get_text_dimensions :: "magick_call list \<Rightarrow> command list \<Rightarrow> int \<Rightarrow> nat \<Rightarrow> int \<times> int"
  resize_and_style :: "bool \<Rightarrow> bool \<Rightarrow> command list"
  add_overlay_mask :: "unicode \<Rightarrow> command list"
  resize_output :: "command list"
  resolve :: "unicode \<Rightarrow> unicode"
  REF_DIRECTORY :: unicode

text \<open>
  \<^verbatim>\<open>REF_DIRECTORY / 'fonts/...'\<close>: the directory's last component is \<^verbatim>\<open>ref\<close>, so
  pathlib joins with one separator.
\<close>

definition joinpath :: "unicode \<Rightarrow> unicode \<Rightarrow> unicode" where
  "joinpath d r = d @ str ''/'' @ r"

definition TITLE_FONT :: "env \<Rightarrow> unicode" where
  "TITLE_FONT e = resolve e (joinpath (REF_DIRECTORY e) (str ''fonts/Timeless-Main.otf''))"

definition TITLE_FONT_INFILL :: "env \<Rightarrow> unicode" where
  "TITLE_FONT_INFILL e = joinpath (REF_DIRECTORY e) (str ''fonts/Timeless-Infill.otf'')"

definition TITLE_FONT_GEARS :: "env \<Rightarrow> unicode" where
  "TITLE_FONT_GEARS e = joinpath (REF_DIRECTORY e) (str ''fonts/Timeless-Gears.otf'')"

definition TITLE_COLOR :: unicode where
  "TITLE_COLOR = str ''#FFFFFF''"

definition TITLE_COLOR_INFILL :: unicode where
  "TITLE_COLOR_INFILL = str ''#000000''"

definition TITLE_COLOR_GEARS :: unicode where
  "TITLE_COLOR_GEARS = str ''#000000''"

definition EPISODE_TEXT_FONT :: "env \<Rightarrow> unicode" where
  "EPISODE_TEXT_FONT e = joinpath (REF_DIRECTORY e) (str ''fonts/Timeless-Main.otf'')"

definition EPISODE_TEXT_FONT_INFILL :: "env \<Rightarrow> unicode" where
  "EPISODE_TEXT_FONT_INFILL e = joinpath (REF_DIRECTORY e) (str ''fonts/Timeless-Infill.otf'')"

definition EPISODE_TEXT_FONT_GEARS :: "env \<Rightarrow> unicode" where
  "EPISODE_TEXT_FONT_GEARS e = joinpath (REF_DIRECTORY e) (str ''fonts/Timeless-Gears.otf'')"

definition EPISODE_TEXT_COLOR :: unicode where
  "EPISODE_TEXT_COLOR = str ''#FFFFFF''"

definition EPISODE_TEXT_COLOR_INFILL :: unicode where
  "EPISODE_TEXT_COLOR_INFILL = str ''#000000''"

definition EPISODE_TEXT_COLOR_GEARS :: unicode where
  "EPISODE_TEXT_COLOR_GEARS = str ''#000000''"

definition GRADIENT_IMAGE :: "env \<Rightarrow> unicode" where
  "GRADIENT_IMAGE e = joinpath (REF_DIRECTORY e) (str ''overlays/gradient.png'')"

subsection \<open>The card object\<close>

text \<open>
  The keyword arguments of \<^verbatim>\<open>__init__\<close> (the field \<open>kw_x\<close> is the argument \<open>x\<close>),
  and the slots of the object. \<open>blur\<close> and \<open>grayscale\<close> are kept by the base class;
  \<open>image_magick\<close> holds the calls made on the interface so far; the slot
  \<^verbatim>\<open>_title_text_dimensions\<close> is \<open>title_text_dimensions\<close>, with \<open>None\<close> for Python's.
\<close>

record kwargs =
  kw_source_file :: unicode
  kw_card_file :: unicode
  kw_title_text :: unicode
  kw_season_text :: unicode
  kw_episode_text :: unicode
  kw_hide_season_text :: bool
  kw_hide_episode_text :: bool
  kw_font_file :: unicode
  kw_font_color :: unicode
  kw_font_size :: real
  kw_font_interline_spacing :: int
  kw_font_vertical_shift :: int
  kw_episode_text_color :: unicode
  kw_blur :: bool
  kw_grayscale :: bool

record card =
  blur :: bool
  grayscale :: bool
  image_magick :: "magick_call list"
  source_file :: unicode
  output_file :: unicode
  title_text :: unicode
  season_text :: unicode
  episode_text :: unicode
  hide_season_text :: bool
  hide_episode_text :: bool
  line_count :: nat
  font_file :: unicode
  font_color :: unicode
  font_size :: real
  font_interline_spacing :: int
  font_vertical_shift :: int
  episode_text_color :: unicode
  title_text_size :: real
  index_text_size :: int
  y :: int
  title_text_dimensions :: "(int \<times> int) option"
  index_text_dimensions :: "(int \<times> int) option"
  title_coordinates :: "(int \<times> int \<times> int \<times> int) option"
  index_coordinates :: "(int \<times> int \<times> int \<times> int) option"

subsection \<open>Splitting a string into lines\<close>

text \<open>\<^verbatim>\<open>s.split(sep)\<close> for a separator of one character: there is always a first segment.\<close>

fun split :: "nat \<Rightarrow> unicode \<Rightarrow> unicode list" where
  "split sep [] = [[]]"
| "split sep (c # cs) =
     (if c = sep then [] # split sep cs
      else (c # hd (split sep cs)) # tl (split sep cs))"

text \<open>
  \<^verbatim>\<open>s.splitlines()\<close>: a line ends at \<^verbatim>\<open>\n\<close>, \<^verbatim>\<open>\r\<close>, \<^verbatim>\<open>\r\n\<close>, \<^verbatim>\<open>\v\<close>, \<^verbatim>\<open>\f\<close>,
  \<^verbatim>\<open>\x1c\<close>, \<^verbatim>\<open>\x1d\<close>, \<^verbatim>\<open>\x1e\<close>, \<^verbatim>\<open>\x85\<close>, U+2028 or U+2029; the boundaries are
  dropped, and there is no empty last line.
\<close>

definition is_linebreak :: "nat \<Rightarrow> bool" where
  "is_linebreak c \<longleftrightarrow> c \<in> set [10, 11, 12, 13, 28, 29, 30, 133, 8232, 8233]"

fun splitlines_from :: "unicode \<Rightarrow> unicode \<Rightarrow> unicode list" where
  "splitlines_from cur [] = (if cur = [] then [] else [cur])"
| "splitlines_from cur [c] =
     (if is_linebreak c then [cur] else [cur @ [c]])"
| "splitlines_from cur (c # d # cs) =
     (if c = 13 \<and> d = 10 then cur # splitlines_from [] cs
      else if is_linebreak c then cur # splitlines_from [] (d # cs)
      else splitlines_from (cur @ [c]) (d # cs))"

definition splitlines :: "unicode \<Rightarrow> unicode list" where
  "splitlines s = splitlines_from [] s"

section \<open>The constructor\<close>

definition init :: "env \<Rightarrow> kwargs \<Rightarrow> card" where
  "init e kw =
     \<lparr> blur = kw_blur kw,
       grayscale = kw_grayscale kw,
       image_magick = [],
       source_file = kw_source_file kw,
       output_file = kw_card_file kw,
       title_text = escape_chars e (kw_title_text kw),
       season_text = escape_chars e (kw_season_text kw),
       episode_text = escape_chars e (kw_episode_text kw),
       hide_season_text = kw_hide_season_text kw,
       hide_episode_text = kw_hide_episode_text kw,
       line_count = length (split 10 (kw_title_text kw)),
       font_file = kw_font_file kw,
       font_color = kw_font_color kw,
       font_size = kw_font_size kw,
       font_interline_spacing = - 50 + kw_font_interline_spacing kw,
       font_vertical_shift = kw_font_vertical_shift kw,
       episode_text_color = kw_episode_text_color kw,
       title_text_size = 256 * kw_font_size kw,
       index_text_size = 60,
       y = 47 + kw_font_vertical_shift kw,
       title_text_dimensions = None,
       index_text_dimensions = None,
       title_coordinates = None,
       index_coordinates = None \<rparr>"

section \<open>Title text\<close>

text \<open>
  The three title layers are properties that only read the object. The source writes
  each of them out; so does the model.
\<close>

definition title_text_commands :: "card \<Rightarrow> command list" where
  "title_text_commands c =
     [ Font (font_file c),
       Gravity (str ''south''),
       Pointsize (title_text_size c),
       Kerning 0,
       Interline_Spacing (font_interline_spacing c),
       Background (str ''transparent''),
       Fill (font_color c),
       Annotate (y c) (title_text c) ]"

definition title_text_infill_commands :: "env \<Rightarrow> card \<Rightarrow> command list" where
  "title_text_infill_commands e c =
     [ Font (TITLE_FONT_INFILL e),
       Gravity (str ''south''),
       Pointsize (title_text_size c),
       Kerning 0,
       Interline_Spacing (font_interline_spacing c),
       Background (str ''transparent''),
       Fill TITLE_COLOR_INFILL,
       Annotate (y c) (title_text c) ]"

definition title_text_gears_commands :: "env \<Rightarrow> card \<Rightarrow> command list" where
  "title_text_gears_commands e c =
     [ Font (TITLE_FONT_GEARS e),
       Gravity (str ''south''),
       Pointsize (title_text_size c),
       Kerning 0,
       Interline_Spacing (font_interline_spacing c),
       Background (str ''transparent''),
       Fill TITLE_COLOR_GEARS,
       Annotate (y c) (title_text c) ]"

text \<open>
  \<^verbatim>\<open>get_title_dimensions\<close> asks the renderer when the slot is \<open>None\<close>, stores the answer
  and returns it; the call is appended to the calls made on the interface.
\<close>

definition get_title_dimensions :: "env \<Rightarrow> card \<Rightarrow> (int \<times> int) \<times> card" where
  "get_title_dimensions e c =
     (case title_text_dimensions c of
        None \<Rightarrow>
          (let cmds = title_text_commands c;
               n = length (splitlines (title_text c));
               d = get_text_dimensions e (image_magick c) cmds (font_interline_spacing c) n;
               c' = c \<lparr> image_magick :=
                          image_magick c @ [Get_Text_Dimensions cmds (font_interline_spacing c) n],
                        title_text_dimensions := Some d \<rparr>
           in (d, c'))
      | Some d \<Rightarrow> (d, c))"

section \<open>Index text\<close>

text \<open>The separator of \<^verbatim>\<open>f'{self.season_text} \<bullet> {self.episode_text}'\<close>: a space, U+2022, a space.\<close>

definition index_separator :: unicode where
  "index_separator = [32, 8226, 32]"

definition index_text_commands :: "env \<Rightarrow> card \<Rightarrow> command list \<times> card" where
  "index_text_commands e c =
     (if hide_season_text c \<and> hide_episode_text c then ([], c)
      else
        (let index_text =
               (if hide_season_text c then episode_text c
                else if hide_episode_text c then season_text c
                else season_text c @ index_separator @ episode_text c);
             (dims, c') = get_title_dimensions e c;
             title_height = snd dims;
             index_offset = y c' + title_height - 10
         in ([ Font (EPISODE_TEXT_FONT e),
               Gravity (str ''south''),
               Pointsize (of_int (index_text_size c')),
               Kerning 0,
               Fill (episode_text_color c'),
               Annotate index_offset index_text ], c')))"

definition index_text_infill_commands :: "env \<Rightarrow> card \<Rightarrow> command list \<times> card" where
  "index_text_infill_commands e c =
     (if hide_season_text c \<and> hide_episode_text c then ([], c)
      else
        (let index_text =
               (if hide_season_text c then episode_text c
                else if hide_episode_text c then season_text c
                else season_text c @ index_separator @ episode_text c);
             (dims, c') = get_title_dimensions e c;
             title_height = snd dims;
             index_offset = y c' + title_height - 10
         in ([ Font (EPISODE_TEXT_FONT_INFILL e),
               Gravity (str ''south''),
               Pointsize (of_int (index_text_size c')),
               Kerning 0,
               Fill EPISODE_TEXT_COLOR_INFILL,
               Annotate index_offset index_text ], c')))"

definition index_text_gears_commands :: "env \<Rightarrow> card \<Rightarrow> command list \<times> card" where
  "index_text_gears_commands e c =
     (if hide_season_text c \<and> hide_episode_text c then ([], c)
      else
        (let index_text =
               (if hide_season_text c then episode_text c
                else if hide_episode_text c then season_text c
                else season_text c @ index_separator @ episode_text c);
             (dims, c') = get_title_dimensions e c;
             title_height = snd dims;
             index_offset = y c' + title_height - 10
         in ([ Font (EPISODE_TEXT_FONT_GEARS e),
               Gravity (str ''south''),
               Pointsize (of_int (index_text_size c')),
               Kerning 0,
               Fill EPISODE_TEXT_COLOR_GEARS,
               Annotate index_offset index_text ], c')))"

definition gradient_commands :: "env \<Rightarrow> command list" where
  "gradient_commands e = [ Quoted (resolve e (GRADIENT_IMAGE e)), Plain (str ''-composite'') ]"

section \<open>Building the card\<close>

text \<open>
  \<^verbatim>\<open>create\<close> evaluates the elements of its list from left to right, so the three index
  properties run first, each on the object the one before left behind.
  \<open>create_commands\<close> is the list handed to \<^verbatim>\<open>run\<close>, with the object after it was built;
  \<open>create\<close> makes the call.
\<close>

definition create_commands :: "env \<Rightarrow> card \<Rightarrow> command list \<times> card" where
  "create_commands e c =
     (let (index, c1) = index_text_commands e c;
          (index_infill, c2) = index_text_infill_commands e c1;
          (index_gears, c3) = index_text_gears_commands e c2
      in ([ Plain (str ''convert''), Quoted (resolve e (source_file c)) ]
          @ resize_and_style e (blur c) (grayscale c)
          @ gradient_commands e
          @ index @ index_infill @ index_gears
          @ title_text_commands c3
          @ title_text_infill_commands e c3
          @ title_text_gears_commands e c3
          @ add_overlay_mask e (source_file c3)
          @ resize_output e
          @ [ Quoted (resolve e (output_file c3)) ], c3))"

definition create :: "env \<Rightarrow> card \<Rightarrow> card" where
  "create e c =
     (let (cmds, c') = create_commands e c
      in c' \<lparr> image_magick := image_magick c' @ [Run cmds] \<rparr>)"

section \<open>Static methods\<close>

text \<open>
  \<^verbatim>\<open>is_custom_font\<close> looks the name \<^verbatim>\<open>FontPreviewTitleCard\<close> up when it is called. The
  names bound in the module when it runs are the imports of lines 1 to 17, the tuple
  type of line 24 and the class itself (\<^verbatim>\<open>Preferences\<close> and \<^verbatim>\<open>Font\<close> are imported
  under \<^verbatim>\<open>TYPE_CHECKING\<close> only); no built-in has that name. A name that is not bound
  raises \<^verbatim>\<open>NameError\<close>.
\<close>

datatype error = NameError string

definition module_globals :: "string list" where
  "module_globals =
     [ ''Path'', ''namedtuple'', ''Literal'', ''Optional'', ''TYPE_CHECKING'',
       ''root_validator'', ''BaseCardTypeCustomFontAllText'', ''BaseCardType'',
       ''ImageMagickCommands'', ''Extra'', ''CardDescription'', ''log'', ''EpisodeInfo'',
       ''SplitCharacteristics'', ''BoxCoordinates'', ''TimelessTitleCard'' ]"

definition is_custom_font :: "('f \<Rightarrow> bool) \<Rightarrow> 'f \<Rightarrow> 'x \<Rightarrow> error + bool" where
  "is_custom_font font_preview_is_custom_font font extras =
     (if ''FontPreviewTitleCard'' \<in> set module_globals
      then Inr (font_preview_is_custom_font font)
      else Inl (NameError ''FontPreviewTitleCard''))"

record episode_info =
  season_number :: int

definition SEASON_TEXT_FORMATTER :: "'a episode_info_scheme \<Rightarrow> unicode" where
  "SEASON_TEXT_FORMATTER episode_info =
     (if season_number episode_info = 0 then str ''SPECIALS''
      else str ''SEASON {season_number}'')"

section \<open>Reading a command list\<close>

text \<open>
  The properties below speak of the slots of the commands of a list, in the order of the
  list: the offset and text of every \<open>Annotate\<close>, the file of every \<open>Font\<close>, the
  value of every \<open>Interline_Spacing\<close>; and of the measurements among the calls made
  on the interface.
\<close>

fun annotations :: "command list \<Rightarrow> (int \<times> unicode) list" where
  "annotations [] = []"
| "annotations (Annotate off t # ks) = (off, t) # annotations ks"
| "annotations (k # ks) = annotations ks"

fun fonts :: "command list \<Rightarrow> unicode list" where
  "fonts [] = []"
| "fonts (Font f # ks) = f # fonts ks"
| "fonts (k # ks) = fonts ks"

fun interline_spacings :: "command list \<Rightarrow> int list" where
  "interline_spacings [] = []"
| "interline_spacings (Interline_Spacing s # ks) = s # interline_spacings ks"
| "interline_spacings (k # ks) = interline_spacings ks"

fun measurements :: "magick_call list \<Rightarrow> (command list \<times> int \<times> nat) list" where
  "measurements [] = []"
| "measurements (Get_Text_Dimensions ks s n # cs) = (ks, s, n) # measurements cs"
| "measurements (Run ks # cs) = measurements cs"

text \<open>Python's \<^verbatim>\<open>str(n)\<close> for an integer: the decimal digits, after a minus sign if negative.\<close>

fun digits :: "nat \<Rightarrow> unicode" where
  "digits n = (if n < 10 then [48 + n] else digits (n div 10) @ [48 + n mod 10])"

definition str_int :: "int \<Rightarrow> unicode" where
  "str_int i = (if i < 0 then 45 # digits (nat (- i)) else digits (nat i))"

text \<open>
  The value of the local variable \<^verbatim>\<open>index_text\<close> of the three index properties, when
  they do not return early.
\<close>

definition shown_index_text :: "card \<Rightarrow> unicode" where
  "shown_index_text c =
     (if hide_season_text c then episode_text c
      else if hide_episode_text c then season_text c
      else season_text c @ index_separator @ episode_text c)"

section \<open>A sample environment and sample arguments\<close>

text \<open>
  An interface that escapes the double quote, the backquote and the percent sign, and a
  renderer whose answer grows with the number of calls made before, so that a second
  measurement would be seen; the arguments are those of a card with the title
  \<^verbatim>\<open>HELLO\<close> and the defaults of the constructor.
\<close>

definition escape0 :: "unicode \<Rightarrow> unicode" where
  "escape0 s =
     concat (map (\<lambda>c. if c = 34 then [92, 34] else if c = 96 then [92, 96]
                      else if c = 37 then [37, 37] else [c]) s)"

definition env0 :: env where
  "env0 =
     \<lparr> escape_chars = escape0,
       get_text_dimensions = (\<lambda>calls cmds spacing n. (512, 100 + 25 * int (length calls))),
       resize_and_style = (\<lambda>b g. [Plain (str ''-resize''), Plain (str ''3200x1800'')]),
       add_overlay_mask = (\<lambda>src. []),
       resize_output = [Plain (str ''-resize''), Plain (str ''3200x1800'')],
       resolve = (\<lambda>p. p),
       REF_DIRECTORY = str ''/ref'' \<rparr>"

definition kw0 :: kwargs where
  "kw0 =
     \<lparr> kw_source_file = str ''/s.jpg'',
       kw_card_file = str ''/c.jpg'',
       kw_title_text = str ''HELLO'',
       kw_season_text = str ''SEASON 1'',
       kw_episode_text = str ''EPISODE 1'',
       kw_hide_season_text = False,
       kw_hide_episode_text = False,
       kw_font_file = TITLE_FONT env0,
       kw_font_color = TITLE_COLOR,
       kw_font_size = 1,
       kw_font_interline_spacing = 0,
       kw_font_vertical_shift = 0,
       kw_episode_text_color = EPISODE_TEXT_COLOR,
       kw_blur = False,
       kw_grayscale = False \<rparr>"

section \<open>Auxiliary facts\<close>

declare digits.simps [simp del]

lemma annotations_append: "annotations (xs @ ys) = annotations xs @ annotations ys"
  by (induction xs rule: annotations.induct) simp_all

lemma fonts_append: "fonts (xs @ ys) = fonts xs @ fonts ys"
  by (induction xs rule: fonts.induct) simp_all

lemma measurements_append: "measurements (xs @ ys) = measurements xs @ measurements ys"
  by (induction xs rule: measurements.induct) simp_all

lemma length_split: "length (split sep s) = Suc (count_list s sep)"
  by (induction s) simp_all

lemma split_nonempty: "split sep s \<noteq> []"
  by (induction s) simp_all

lemma get_title_dimensions_None:
  "title_text_dimensions c = None \<Longrightarrow>
   get_title_dimensions e c =
     (get_text_dimensions e (image_magick c) (title_text_commands c) (font_interline_spacing c)
        (length (splitlines (title_text c))),
      c \<lparr> image_magick := image_magick c @
             [Get_Text_Dimensions (title_text_commands c) (font_interline_spacing c)
                (length (splitlines (title_text c)))],
          title_text_dimensions := Some (get_text_dimensions e (image_magick c)
             (title_text_commands c) (font_interline_spacing c)
             (length (splitlines (title_text c)))) \<rparr>)"
  by (simp add: get_title_dimensions_def Let_def)

lemma get_title_dimensions_Some:
  "title_text_dimensions c = Some d \<Longrightarrow> get_title_dimensions e c = (d, c)"
  by (simp add: get_title_dimensions_def)

lemma cached_after:
  "title_text_dimensions (snd (get_title_dimensions e c)) = Some (fst (get_title_dimensions e c))"
  by (cases "title_text_dimensions c")
     (simp_all add: get_title_dimensions_None get_title_dimensions_Some)

lemma get_title_dimensions_again:
  "get_title_dimensions e (snd (get_title_dimensions e c)) =
     (fst (get_title_dimensions e c), snd (get_title_dimensions e c))"
  by (simp add: get_title_dimensions_Some [OF cached_after])

lemma get_title_dimensions_snd:
  "snd (get_title_dimensions e c) =
     c \<lparr> image_magick := image_magick (snd (get_title_dimensions e c)),
         title_text_dimensions := Some (fst (get_title_dimensions e c)) \<rparr>"
  by (cases "title_text_dimensions c")
     (simp_all add: get_title_dimensions_None get_title_dimensions_Some)

lemma get_title_dimensions_keeps:
  "y (snd (get_title_dimensions e c)) = y c"
  "index_text_size (snd (get_title_dimensions e c)) = index_text_size c"
  "episode_text_color (snd (get_title_dimensions e c)) = episode_text_color c"
  "hide_season_text (snd (get_title_dimensions e c)) = hide_season_text c"
  "hide_episode_text (snd (get_title_dimensions e c)) = hide_episode_text c"
  "season_text (snd (get_title_dimensions e c)) = season_text c"
  "episode_text (snd (get_title_dimensions e c)) = episode_text c"
  "title_text (snd (get_title_dimensions e c)) = title_text c"
  "title_text_size (snd (get_title_dimensions e c)) = title_text_size c"
  "font_file (snd (get_title_dimensions e c)) = font_file c"
  "font_color (snd (get_title_dimensions e c)) = font_color c"
  "font_size (snd (get_title_dimensions e c)) = font_size c"
  "font_interline_spacing (snd (get_title_dimensions e c)) = font_interline_spacing c"
  "font_vertical_shift (snd (get_title_dimensions e c)) = font_vertical_shift c"
  "source_file (snd (get_title_dimensions e c)) = source_file c"
  "output_file (snd (get_title_dimensions e c)) = output_file c"
  "blur (snd (get_title_dimensions e c)) = blur c"
  "grayscale (snd (get_title_dimensions e c)) = grayscale c"
  "line_count (snd (get_title_dimensions e c)) = line_count c"
  by (cases "title_text_dimensions c";
      simp add: get_title_dimensions_None get_title_dimensions_Some)+

lemma title_commands_after_measurement:
  "title_text_commands (snd (get_title_dimensions e c)) = title_text_commands c"
  "title_text_infill_commands e' (snd (get_title_dimensions e c)) = title_text_infill_commands e' c"
  "title_text_gears_commands e' (snd (get_title_dimensions e c)) = title_text_gears_commands e' c"
  by (simp_all add: title_text_commands_def title_text_infill_commands_def
        title_text_gears_commands_def get_title_dimensions_keeps)

lemma index_hidden:
  assumes "hide_season_text c" "hide_episode_text c"
  shows "index_text_commands e c = ([], c)"
    and "index_text_infill_commands e c = ([], c)"
    and "index_text_gears_commands e c = ([], c)"
  using assms
  by (simp_all add: index_text_commands_def index_text_infill_commands_def
        index_text_gears_commands_def)

lemma index_shown:
  assumes "\<not> (hide_season_text c \<and> hide_episode_text c)"
  shows "index_text_commands e c =
           ([ Font (EPISODE_TEXT_FONT e), Gravity (str ''south''),
              Pointsize (of_int (index_text_size c)), Kerning 0,
              Fill (episode_text_color c),
              Annotate (y c + snd (fst (get_title_dimensions e c)) - 10) (shown_index_text c) ],
            snd (get_title_dimensions e c))"
    and "index_text_infill_commands e c =
           ([ Font (EPISODE_TEXT_FONT_INFILL e), Gravity (str ''south''),
              Pointsize (of_int (index_text_size c)), Kerning 0,
              Fill EPISODE_TEXT_COLOR_INFILL,
              Annotate (y c + snd (fst (get_title_dimensions e c)) - 10) (shown_index_text c) ],
            snd (get_title_dimensions e c))"
    and "index_text_gears_commands e c =
           ([ Font (EPISODE_TEXT_FONT_GEARS e), Gravity (str ''south''),
              Pointsize (of_int (index_text_size c)), Kerning 0,
              Fill EPISODE_TEXT_COLOR_GEARS,
              Annotate (y c + snd (fst (get_title_dimensions e c)) - 10) (shown_index_text c) ],
            snd (get_title_dimensions e c))"
  using assms
  by (simp_all add: index_text_commands_def index_text_infill_commands_def
        index_text_gears_commands_def Let_def split_beta get_title_dimensions_keeps
        shown_index_text_def)

lemma create_commands_hidden:
  assumes "hide_season_text c" "hide_episode_text c"
  shows "create_commands e c =
           ([ Plain (str ''convert''), Quoted (resolve e (source_file c)) ]
            @ resize_and_style e (blur c) (grayscale c)
            @ gradient_commands e
            @ title_text_commands c
            @ title_text_infill_commands e c
            @ title_text_gears_commands e c
            @ add_overlay_mask e (source_file c)
            @ resize_output e
            @ [ Quoted (resolve e (output_file c)) ], c)"
  using assms by (simp add: create_commands_def index_hidden)

lemma create_commands_shown:
  assumes "\<not> (hide_season_text c \<and> hide_episode_text c)"
  shows "create_commands e c =
           ([ Plain (str ''convert''), Quoted (resolve e (source_file c)) ]
            @ resize_and_style e (blur c) (grayscale c)
            @ gradient_commands e
            @ fst (index_text_commands e c)
            @ fst (index_text_infill_commands e c)
            @ fst (index_text_gears_commands e c)
            @ title_text_commands c
            @ title_text_infill_commands e c
            @ title_text_gears_commands e c
            @ add_overlay_mask e (source_file c)
            @ resize_output e
            @ [ Quoted (resolve e (output_file c)) ], snd (get_title_dimensions e c))"
proof -
  let ?c1 = "snd (get_title_dimensions e c)"
  have h1: "\<not> (hide_season_text ?c1 \<and> hide_episode_text ?c1)"
    using assms by (simp add: get_title_dimensions_keeps)
  have again: "get_title_dimensions e ?c1 = (fst (get_title_dimensions e c), ?c1)"
    by (rule get_title_dimensions_again)
  have i2: "index_text_infill_commands e ?c1 =
              (fst (index_text_infill_commands e c), ?c1)"
    by (simp add: index_shown(2) [OF h1] index_shown(2) [OF assms] again
          get_title_dimensions_keeps shown_index_text_def)
  have i3: "index_text_gears_commands e ?c1 =
              (fst (index_text_gears_commands e c), ?c1)"
    by (simp add: index_shown(3) [OF h1] index_shown(3) [OF assms] again
          get_title_dimensions_keeps shown_index_text_def)
  have i1: "index_text_commands e c = (fst (index_text_commands e c), ?c1)"
    by (simp add: index_shown(1) [OF assms])
  show ?thesis
    unfolding create_commands_def
    by (subst i1, simp add: i2 i3 title_commands_after_measurement
          get_title_dimensions_keeps)
qed

lemma index_keeps:
  assumes "f = index_text_commands \<or> f = index_text_infill_commands \<or> f = index_text_gears_commands"
  shows "season_text (snd (f e c)) = season_text c"
    and "episode_text (snd (f e c)) = episode_text c"
    and "hide_season_text (snd (f e c)) = hide_season_text c"
    and "hide_episode_text (snd (f e c)) = hide_episode_text c"
    and "y (snd (f e c)) = y c"
    and "font_vertical_shift (snd (f e c)) = font_vertical_shift c"
    and "title_text (snd (f e c)) = title_text c"
    and "line_count (snd (f e c)) = line_count c"
  using assms
  by (cases "hide_season_text c \<and> hide_episode_text c";
      auto simp add: index_hidden index_shown get_title_dimensions_keeps)+

lemma create_hidden:
  assumes "hide_season_text c" "hide_episode_text c"
  shows "create e c = c \<lparr> image_magick := image_magick c @ [Run (fst (create_commands e c))] \<rparr>"
  using assms by (simp add: create_def create_commands_hidden)

lemma create_shown:
  assumes "\<not> (hide_season_text c \<and> hide_episode_text c)"
  shows "create e c =
           (snd (get_title_dimensions e c))
             \<lparr> image_magick := image_magick (snd (get_title_dimensions e c))
                                 @ [Run (fst (create_commands e c))] \<rparr>"
  using assms by (simp add: create_def create_commands_shown)

lemma str_texts:
  "str ''SEASON 1'' = [83, 69, 65, 83, 79, 78, 32, 49]"
  "str ''EPISODE 1'' = [69, 80, 73, 83, 79, 68, 69, 32, 49]"
  "str ''HELLO'' = [72, 69, 76, 76, 79]"
  by (simp_all add: str_def)

lemma escape0_plain: "\<forall>c \<in> set s. c \<noteq> 34 \<and> c \<noteq> 96 \<and> c \<noteq> 37 \<Longrightarrow> escape0 s = s"
  by (induction s) (simp_all add: escape0_def)

lemma create_keeps_texts:
  "title_text (create e c) = title_text c"
  "season_text (create e c) = season_text c"
  "episode_text (create e c) = episode_text c"
  "font_interline_spacing (create e c) = font_interline_spacing c"
  by (cases "hide_season_text c \<and> hide_episode_text c";
      simp add: create_hidden create_shown get_title_dimensions_keeps)+

lemma digits_have_digit: "\<exists>d \<in> set (digits n). 48 \<le> d \<and> d \<le> 57"
  by (subst digits.simps) auto

lemma str_int_has_digit: "\<exists>d \<in> set (str_int i). 48 \<le> d \<and> d \<le> 57"
  using digits_have_digit by (auto simp add: str_int_def)

lemma placeholder_has_no_digit:
  "d \<in> set (str ''SEASON {season_number}'') \<Longrightarrow> \<not> (48 \<le> d \<and> d \<le> 57)"
  by (auto simp add: str_def)

section \<open>Hidden index text\<close>

text \<open>
  Claim C1, as the code has it. For every card whose season text and episode text are both
  hidden, each of the three index properties returns the empty list. They return before
  they ask for the title dimensions, and the title properties never ask, so building the
  card makes no measurement at all: the measurements among the calls on the interface are
  those made before, and the slot of the dimensions is left as it was.
\<close>

theorem both_hidden_no_index_no_measurement:
  assumes "hide_season_text c" and "hide_episode_text c"
  shows "fst (index_text_commands e c) = []
       \<and> fst (index_text_infill_commands e c) = []
       \<and> fst (index_text_gears_commands e c) = []
       \<and> measurements (image_magick (create e c)) = measurements (image_magick c)
       \<and> title_text_dimensions (create e c) = title_text_dimensions c"
  using assms by (simp add: index_hidden create_hidden measurements_append)

text \<open>
  On the sample card with both texts hidden, built right after construction, no
  measurement has been made and the slot is still empty.
\<close>

theorem both_hidden_no_index_no_measurement_witness:
  "hide_season_text (init env0 (kw0 \<lparr> kw_hide_season_text := True, kw_hide_episode_text := True \<rparr>))
   \<and> hide_episode_text (init env0 (kw0 \<lparr> kw_hide_season_text := True, kw_hide_episode_text := True \<rparr>))
   \<and> fst (index_text_commands env0
            (init env0 (kw0 \<lparr> kw_hide_season_text := True, kw_hide_episode_text := True \<rparr>))) = []
   \<and> measurements (image_magick (create env0
            (init env0 (kw0 \<lparr> kw_hide_season_text := True, kw_hide_episode_text := True \<rparr>)))) = []
   \<and> title_text_dimensions (create env0
            (init env0 (kw0 \<lparr> kw_hide_season_text := True, kw_hide_episode_text := True \<rparr>))) = None"
  using both_hidden_no_index_no_measurement
          [of "init env0 (kw0 \<lparr> kw_hide_season_text := True, kw_hide_episode_text := True \<rparr>)" env0]
  by (simp add: init_def)

text \<open>
  The statement that a measurement is still made when both texts are hidden fails on that
  card: the index list is empty, and so is the list of measurements after the build.
\<close>

theorem both_hidden_measurement_counterexample:
  "\<not> (hide_season_text (init env0 (kw0 \<lparr> kw_hide_season_text := True, kw_hide_episode_text := True \<rparr>))
      \<and> hide_episode_text (init env0 (kw0 \<lparr> kw_hide_season_text := True, kw_hide_episode_text := True \<rparr>))
      \<longrightarrow> fst (index_text_commands env0
            (init env0 (kw0 \<lparr> kw_hide_season_text := True, kw_hide_episode_text := True \<rparr>))) = []
        \<and> measurements (image_magick (create env0
            (init env0 (kw0 \<lparr> kw_hide_season_text := True, kw_hide_episode_text := True \<rparr>)))) \<noteq> [])"
  by (simp add: init_def create_hidden measurements_append)

section \<open>The index text\<close>

text \<open>
  Claim C2. In each of the three index layers (main, infill, gears) the annotated text is
  the episode text alone when only the season text is hidden, the season text alone when
  only the episode text is hidden, and the season text, a space, the character U+2022,
  a space and the episode text when both are shown. None of the three properties changes
  the two texts or the two flags, so the layers of one build carry the same text.
\<close>

theorem index_text_resolution:
  "(hide_season_text c \<and> \<not> hide_episode_text c \<longrightarrow>
      (\<forall>f \<in> {index_text_commands, index_text_infill_commands, index_text_gears_commands}.
         map snd (annotations (fst (f e c))) = [episode_text c]))
   \<and> (\<not> hide_season_text c \<and> hide_episode_text c \<longrightarrow>
      (\<forall>f \<in> {index_text_commands, index_text_infill_commands, index_text_gears_commands}.
         map snd (annotations (fst (f e c))) = [season_text c]))
   \<and> (\<not> hide_season_text c \<and> \<not> hide_episode_text c \<longrightarrow>
      (\<forall>f \<in> {index_text_commands, index_text_infill_commands, index_text_gears_commands}.
         map snd (annotations (fst (f e c))) = [season_text c @ [32, 8226, 32] @ episode_text c]))
   \<and> (\<forall>f \<in> {index_text_commands, index_text_infill_commands, index_text_gears_commands}.
         season_text (snd (f e c)) = season_text c \<and> episode_text (snd (f e c)) = episode_text c
         \<and> hide_season_text (snd (f e c)) = hide_season_text c
         \<and> hide_episode_text (snd (f e c)) = hide_episode_text c)"
proof -
  have shown: "\<not> (hide_season_text c \<and> hide_episode_text c) \<Longrightarrow>
      \<forall>f \<in> {index_text_commands, index_text_infill_commands, index_text_gears_commands}.
        map snd (annotations (fst (f e c))) = [shown_index_text c]"
    by (simp add: index_shown)
  have keeps: "\<forall>f \<in> {index_text_commands, index_text_infill_commands, index_text_gears_commands}.
         season_text (snd (f e c)) = season_text c \<and> episode_text (snd (f e c)) = episode_text c
         \<and> hide_season_text (snd (f e c)) = hide_season_text c
         \<and> hide_episode_text (snd (f e c)) = hide_episode_text c"
    by (simp add: index_keeps)
  show ?thesis
    using shown keeps by (simp add: shown_index_text_def index_separator_def)
qed

text \<open>
  The three cases on the sample card: \<^verbatim>\<open>EPISODE 1\<close>, \<^verbatim>\<open>SEASON 1\<close>, and the two
  joined by the separator.
\<close>

theorem index_text_resolution_witness:
  "map snd (annotations (fst (index_text_commands env0 (init env0 (kw0 \<lparr> kw_hide_season_text := True \<rparr>))))) = [[69, 80, 73, 83, 79, 68, 69, 32, 49]]
   \<and> map snd (annotations (fst (index_text_infill_commands env0 (init env0 (kw0 \<lparr> kw_hide_season_text := True \<rparr>))))) = [[69, 80, 73, 83, 79, 68, 69, 32, 49]]
   \<and> map snd (annotations (fst (index_text_gears_commands env0 (init env0 (kw0 \<lparr> kw_hide_season_text := True \<rparr>))))) = [[69, 80, 73, 83, 79, 68, 69, 32, 49]]
   \<and> map snd (annotations (fst (index_text_commands env0 (init env0 (kw0 \<lparr> kw_hide_episode_text := True \<rparr>))))) = [[83, 69, 65, 83, 79, 78, 32, 49]]
   \<and> map snd (annotations (fst (index_text_infill_commands env0 (init env0 (kw0 \<lparr> kw_hide_episode_text := True \<rparr>))))) = [[83, 69, 65, 83, 79, 78, 32, 49]]
   \<and> map snd (annotations (fst (index_text_gears_commands env0 (init env0 (kw0 \<lparr> kw_hide_episode_text := True \<rparr>))))) = [[83, 69, 65, 83, 79, 78, 32, 49]]
   \<and> map snd (annotations (fst (index_text_commands env0 (init env0 kw0)))) = [[83, 69, 65, 83, 79, 78, 32, 49, 32, 8226, 32, 69, 80, 73, 83, 79, 68, 69, 32, 49]]
   \<and> map snd (annotations (fst (index_text_infill_commands env0 (init env0 kw0)))) = [[83, 69, 65, 83, 79, 78, 32, 49, 32, 8226, 32, 69, 80, 73, 83, 79, 68, 69, 32, 49]]
   \<and> map snd (annotations (fst (index_text_gears_commands env0 (init env0 kw0)))) = [[83, 69, 65, 83, 79, 78, 32, 49, 32, 8226, 32, 69, 80, 73, 83, 79, 68, 69, 32, 49]]"
proof -
  let ?a = "init env0 (kw0 \<lparr> kw_hide_season_text := True \<rparr>)"
  let ?b = "init env0 (kw0 \<lparr> kw_hide_episode_text := True \<rparr>)"
  let ?c = "init env0 kw0"
  have season: "escape0 (str ''SEASON 1'') = [83, 69, 65, 83, 79, 78, 32, 49]"
    and episode: "escape0 (str ''EPISODE 1'') = [69, 80, 73, 83, 79, 68, 69, 32, 49]"
    by (simp_all add: str_texts escape0_plain)
  have a: "hide_season_text ?a \<and> \<not> hide_episode_text ?a
           \<and> episode_text ?a = [69, 80, 73, 83, 79, 68, 69, 32, 49]"
    by (simp add: init_def kw0_def env0_def episode)
  have b: "\<not> hide_season_text ?b \<and> hide_episode_text ?b
           \<and> season_text ?b = [83, 69, 65, 83, 79, 78, 32, 49]"
    by (simp add: init_def kw0_def env0_def season)
  have c: "\<not> hide_season_text ?c \<and> \<not> hide_episode_text ?c
           \<and> season_text ?c = [83, 69, 65, 83, 79, 78, 32, 49]
           \<and> episode_text ?c = [69, 80, 73, 83, 79, 68, 69, 32, 49]"
    by (simp add: init_def kw0_def env0_def season episode)
  have A: "\<forall>f \<in> {index_text_commands, index_text_infill_commands, index_text_gears_commands}.
      map snd (annotations (fst (f env0 ?a))) = [[69, 80, 73, 83, 79, 68, 69, 32, 49]]"
    using index_text_resolution [of ?a env0] a by simp
  have B: "\<forall>f \<in> {index_text_commands, index_text_infill_commands, index_text_gears_commands}.
      map snd (annotations (fst (f env0 ?b))) = [[83, 69, 65, 83, 79, 78, 32, 49]]"
    using index_text_resolution [of ?b env0] b by simp
  have C: "\<forall>f \<in> {index_text_commands, index_text_infill_commands, index_text_gears_commands}.
      map snd (annotations (fst (f env0 ?c)))
        = [[83, 69, 65, 83, 79, 78, 32, 49, 32, 8226, 32, 69, 80, 73, 83, 79, 68, 69, 32, 49]]"
    using index_text_resolution [of ?c env0] c by simp
  from A B C show ?thesis by blast
qed

section \<open>The line count\<close>

text \<open>
  Claim C3, as the code has it. The slot \<^verbatim>\<open>line_count\<close> is set by the constructor to
  the number of segments of the raw title between newlines, one more than the number of
  newlines. The measurement does not read it: the line count it passes is the number of
  lines of the escaped title as \<^verbatim>\<open>splitlines\<close> counts them. Neither the measurement
  nor the commands of the build depend on the slot, and neither changes it.
\<close>

theorem line_count_field_and_measured_lines:
  "line_count (init e kw) = length (split 10 (kw_title_text kw))
   \<and> length (split 10 (kw_title_text kw)) = Suc (count_list (kw_title_text kw) 10)
   \<and> measurements (image_magick (snd (get_title_dimensions e (init e kw))))
       = [(title_text_commands (init e kw), kw_font_interline_spacing kw - 50,
           length (splitlines (escape_chars e (kw_title_text kw))))]
   \<and> get_title_dimensions e (c \<lparr> line_count := n \<rparr>)
       = (fst (get_title_dimensions e c), (snd (get_title_dimensions e c)) \<lparr> line_count := n \<rparr>)
   \<and> fst (create_commands e (c \<lparr> line_count := n \<rparr>)) = fst (create_commands e c)
   \<and> line_count (snd (get_title_dimensions e c)) = line_count c
   \<and> line_count (create e c) = line_count c"
proof -
  have a: "line_count (init e kw) = length (split 10 (kw_title_text kw))"
    by (simp add: init_def)
  have b: "measurements (image_magick (snd (get_title_dimensions e (init e kw))))
       = [(title_text_commands (init e kw), kw_font_interline_spacing kw - 50,
           length (splitlines (escape_chars e (kw_title_text kw))))]"
    by (simp add: get_title_dimensions_def Let_def init_def)
  have c: "get_title_dimensions e (c \<lparr> line_count := n \<rparr>)
       = (fst (get_title_dimensions e c), (snd (get_title_dimensions e c)) \<lparr> line_count := n \<rparr>)"
    by (cases "title_text_dimensions c")
       (simp_all add: get_title_dimensions_def Let_def title_text_commands_def)
  have d: "fst (create_commands e (c \<lparr> line_count := n \<rparr>)) = fst (create_commands e c)"
  proof (cases "hide_season_text c \<and> hide_episode_text c")
    case True
    then show ?thesis
      by (simp add: create_commands_hidden title_text_commands_def
            title_text_infill_commands_def title_text_gears_commands_def)
  next
    case False
    then have "\<not> (hide_season_text (c \<lparr> line_count := n \<rparr>)
                 \<and> hide_episode_text (c \<lparr> line_count := n \<rparr>))"
      by simp
    then show ?thesis
      using False
      by (simp add: create_commands_shown index_shown c shown_index_text_def
            title_text_commands_def title_text_infill_commands_def
            title_text_gears_commands_def)
  qed
  have f: "line_count (create e c) = line_count c"
    by (cases "hide_season_text c \<and> hide_episode_text c")
       (simp_all add: create_hidden create_shown get_title_dimensions_keeps)
  show ?thesis
    using a b c d f by (simp add: length_split get_title_dimensions_keeps)
qed

text \<open>
  For the empty title the slot holds 1 (\<^verbatim>\<open>''.split('\n')\<close> is \<^verbatim>\<open>['']\<close>), and the
  measurement is asked for 0 lines (\<^verbatim>\<open>''.splitlines()\<close> is \<^verbatim>\<open>[]\<close>).
\<close>

theorem measured_line_count_counterexample:
  "line_count (init env0 (kw0 \<lparr> kw_title_text := [] \<rparr>)) = 1
   \<and> measurements (image_magick (snd (get_title_dimensions env0
           (init env0 (kw0 \<lparr> kw_title_text := [] \<rparr>)))))
       = [(title_text_commands (init env0 (kw0 \<lparr> kw_title_text := [] \<rparr>)), - 50, 0)]"
  by (simp add: init_def get_title_dimensions_def Let_def env0_def kw0_def escape0_def
        splitlines_def)

section \<open>Memoised title dimensions\<close>

text \<open>
  Claim C4. On a card whose dimensions have not been computed, two calls of
  \<^verbatim>\<open>get_title_dimensions\<close> in a row return the same dimensions, the second leaves the
  object as the first left it, and together they add exactly one measurement to the
  calls on the interface: the one whose answer the first call returns.
\<close>

theorem get_title_dimensions_memoized:
  assumes "title_text_dimensions c = None"
  shows "fst (get_title_dimensions e (snd (get_title_dimensions e c)))
           = fst (get_title_dimensions e c)
       \<and> snd (get_title_dimensions e (snd (get_title_dimensions e c)))
           = snd (get_title_dimensions e c)
       \<and> measurements (image_magick (snd (get_title_dimensions e (snd (get_title_dimensions e c)))))
           = measurements (image_magick c)
             @ [(title_text_commands c, font_interline_spacing c,
                 length (splitlines (title_text c)))]
       \<and> fst (get_title_dimensions e c)
           = get_text_dimensions e (image_magick c) (title_text_commands c)
               (font_interline_spacing c) (length (splitlines (title_text c)))"
proof -
  let ?first = "get_title_dimensions e c"
  have second: "get_title_dimensions e (snd ?first) = (fst ?first, snd ?first)"
    by (rule get_title_dimensions_again)
  have first: "fst ?first = get_text_dimensions e (image_magick c) (title_text_commands c)
                 (font_interline_spacing c) (length (splitlines (title_text c)))"
    and calls: "image_magick (snd ?first) = image_magick c
                 @ [Get_Text_Dimensions (title_text_commands c) (font_interline_spacing c)
                      (length (splitlines (title_text c)))]"
    using assms by (simp_all add: get_title_dimensions_None)
  show ?thesis
    by (simp add: second calls measurements_append) (rule first)
qed

text \<open>
  The sample renderer would answer a second measurement with a greater height; both
  calls return the first answer, and one measurement is made.
\<close>

theorem get_title_dimensions_memoized_witness:
  "title_text_dimensions (init env0 kw0) = None
   \<and> fst (get_title_dimensions env0 (init env0 kw0)) = (512, 100)
   \<and> fst (get_title_dimensions env0 (snd (get_title_dimensions env0 (init env0 kw0)))) = (512, 100)
   \<and> length (measurements (image_magick
        (snd (get_title_dimensions env0 (snd (get_title_dimensions env0 (init env0 kw0))))))) = 1"
proof -
  have fresh: "title_text_dimensions (init env0 kw0) = None"
    and calls: "image_magick (init env0 kw0) = []"
    by (simp_all add: init_def)
  have answer: "get_text_dimensions env0 [] ks s n = (512, 100)" for ks s n
    by (simp add: env0_def)
  note twice = get_title_dimensions_memoized [OF fresh, of env0]
  note second = twice [THEN conjunct1]
  note calls_made = twice [THEN conjunct2, THEN conjunct2, THEN conjunct1]
  note first = twice [THEN conjunct2, THEN conjunct2, THEN conjunct2]
  show ?thesis
    by (simp add: fresh second calls_made first calls answer)
qed

section \<open>Vertical offsets\<close>

text \<open>
  Claim C5. The constructor sets the vertical offset of the title to 47 plus the vertical
  shift of the font, and the three title layers annotate at that offset. When the index
  text is not wholly hidden, the three index layers annotate at the title offset plus
  the height returned for the title minus 10. No index property changes the offset or
  the shift.
\<close>

theorem vertical_offsets:
  "y (init e kw) = 47 + kw_font_vertical_shift kw
   \<and> font_vertical_shift (init e kw) = kw_font_vertical_shift kw
   \<and> map fst (annotations (title_text_commands c)) = [y c]
   \<and> map fst (annotations (title_text_infill_commands e c)) = [y c]
   \<and> map fst (annotations (title_text_gears_commands e c)) = [y c]
   \<and> (\<not> (hide_season_text c \<and> hide_episode_text c) \<longrightarrow>
        (\<forall>f \<in> {index_text_commands, index_text_infill_commands, index_text_gears_commands}.
           map fst (annotations (fst (f e c)))
             = [y c + snd (fst (get_title_dimensions e c)) - 10]))
   \<and> (\<forall>f \<in> {index_text_commands, index_text_infill_commands, index_text_gears_commands}.
         y (snd (f e c)) = y c \<and> font_vertical_shift (snd (f e c)) = font_vertical_shift c)"
proof -
  have keeps: "\<forall>f \<in> {index_text_commands, index_text_infill_commands, index_text_gears_commands}.
         y (snd (f e c)) = y c \<and> font_vertical_shift (snd (f e c)) = font_vertical_shift c"
    by (simp add: index_keeps)
  have title: "map fst (annotations (title_text_commands c)) = [y c]
     \<and> map fst (annotations (title_text_infill_commands e c)) = [y c]
     \<and> map fst (annotations (title_text_gears_commands e c)) = [y c]"
    by (simp add: title_text_commands_def title_text_infill_commands_def
          title_text_gears_commands_def)
  have index: "\<not> (hide_season_text c \<and> hide_episode_text c) \<Longrightarrow>
        (\<forall>f \<in> {index_text_commands, index_text_infill_commands, index_text_gears_commands}.
           map fst (annotations (fst (f e c)))
             = [y c + snd (fst (get_title_dimensions e c)) - 10])"
    by (simp add: index_shown)
  have "y (init e kw) = 47 + kw_font_vertical_shift kw
     \<and> font_vertical_shift (init e kw) = kw_font_vertical_shift kw"
    by (simp add: init_def)
  with keeps title index show ?thesis by blast
qed

text \<open>
  With a vertical shift of 5 the title offset is 52; the sample renderer measures a
  height of 100, and the index layers annotate at 142.
\<close>

theorem vertical_offsets_witness:
  "y (init env0 (kw0 \<lparr> kw_font_vertical_shift := 5 \<rparr>)) = 52
   \<and> \<not> (hide_season_text (init env0 (kw0 \<lparr> kw_font_vertical_shift := 5 \<rparr>))
          \<and> hide_episode_text (init env0 (kw0 \<lparr> kw_font_vertical_shift := 5 \<rparr>)))
   \<and> snd (fst (get_title_dimensions env0 (init env0 (kw0 \<lparr> kw_font_vertical_shift := 5 \<rparr>)))) = 100
   \<and> map fst (annotations (fst (index_text_commands env0
         (init env0 (kw0 \<lparr> kw_font_vertical_shift := 5 \<rparr>))))) = [142]
   \<and> map fst (annotations (fst (index_text_infill_commands env0
         (init env0 (kw0 \<lparr> kw_font_vertical_shift := 5 \<rparr>))))) = [142]
   \<and> map fst (annotations (fst (index_text_gears_commands env0
         (init env0 (kw0 \<lparr> kw_font_vertical_shift := 5 \<rparr>))))) = [142]"
proof -
  let ?c = "init env0 (kw0 \<lparr> kw_font_vertical_shift := 5 \<rparr>)"
  have shown: "\<not> (hide_season_text ?c \<and> hide_episode_text ?c)"
    by (simp add: init_def kw0_def)
  have height: "snd (fst (get_title_dimensions env0 ?c)) = 100"
    by (simp add: get_title_dimensions_def Let_def init_def env0_def)
  show ?thesis
    using vertical_offsets [of env0 "kw0 \<lparr> kw_font_vertical_shift := 5 \<rparr>" ?c] shown height
    by simp
qed

section \<open>The order of the commands\<close>

text \<open>
  Claim C6. The list that \<^verbatim>\<open>create\<close> hands to the renderer is, in this order: the
  \<^verbatim>\<open>convert\<close> word and the source image, the resize and style commands, the gradient,
  the index layers (main, then infill, then gears; all three empty when both texts are
  hidden), the title layers (main, then infill, then gears), the overlay mask, the resize
  of the output, and the output file. The fonts of the index group and of the title group
  name the layers in that order, and the list is the one passed to \<^verbatim>\<open>run\<close>, after every
  call made while it was assembled.
\<close>

theorem create_order:
  "fst (create_commands e c) =
     [ Plain (str ''convert''), Quoted (resolve e (source_file c)) ]
     @ resize_and_style e (blur c) (grayscale c)
     @ gradient_commands e
     @ (fst (index_text_commands e c)
        @ fst (index_text_infill_commands e c)
        @ fst (index_text_gears_commands e c))
     @ (title_text_commands c
        @ title_text_infill_commands e c
        @ title_text_gears_commands e c)
     @ add_overlay_mask e (source_file c)
     @ resize_output e
     @ [ Quoted (resolve e (output_file c)) ]
   \<and> fonts (fst (index_text_commands e c)
        @ fst (index_text_infill_commands e c)
        @ fst (index_text_gears_commands e c))
       = (if hide_season_text c \<and> hide_episode_text c then []
          else [EPISODE_TEXT_FONT e, EPISODE_TEXT_FONT_INFILL e, EPISODE_TEXT_FONT_GEARS e])
   \<and> fonts (title_text_commands c
        @ title_text_infill_commands e c
        @ title_text_gears_commands e c)
       = [font_file c, TITLE_FONT_INFILL e, TITLE_FONT_GEARS e]
   \<and> image_magick (create e c)
       = image_magick (snd (create_commands e c)) @ [Run (fst (create_commands e c))]"
proof -
  have run: "image_magick (create e c)
       = image_magick (snd (create_commands e c)) @ [Run (fst (create_commands e c))]"
    by (simp add: create_def split_beta)
  have title: "fonts (title_text_commands c @ title_text_infill_commands e c
                 @ title_text_gears_commands e c)
       = [font_file c, TITLE_FONT_INFILL e, TITLE_FONT_GEARS e]"
    by (simp add: title_text_commands_def title_text_infill_commands_def
          title_text_gears_commands_def)
  show ?thesis
  proof (cases "hide_season_text c \<and> hide_episode_text c")
    case True
    then show ?thesis
      using run title by (simp add: create_commands_hidden index_hidden)
  next
    case False
    then show ?thesis
      using run title by (simp add: create_commands_shown index_shown)
  qed
qed

text \<open>
  On the sample card the six fonts come in the order index main, infill, gears, title
  main, infill, gears; the index layers annotate at 137 and the title layers at 47; one
  measurement is made, for one line and a spacing of -50.
\<close>

theorem create_order_witness:
  "fonts (fst (create_commands env0 (init env0 kw0)))
     = [ EPISODE_TEXT_FONT env0, EPISODE_TEXT_FONT_INFILL env0, EPISODE_TEXT_FONT_GEARS env0,
         TITLE_FONT env0, TITLE_FONT_INFILL env0, TITLE_FONT_GEARS env0 ]
   \<and> map fst (annotations (fst (create_commands env0 (init env0 kw0))))
     = [137, 137, 137, 47, 47, 47]
   \<and> measurements (image_magick (create env0 (init env0 kw0)))
     = [(title_text_commands (init env0 kw0), - 50, 1)]"
proof -
  let ?c = "init env0 kw0"
  note order = create_order [of env0 ?c]
  have shown: "\<not> (hide_season_text ?c \<and> hide_episode_text ?c)"
    by (simp add: init_def kw0_def)
  have fresh: "title_text_dimensions ?c = None" and calls: "image_magick ?c = []"
    by (simp_all add: init_def)
  have answer: "get_text_dimensions env0 [] ks s n = (512, 100)" for ks s n
    by (simp add: env0_def)
  have height: "snd (fst (get_title_dimensions env0 ?c)) = 100"
    by (simp add: get_title_dimensions_None [OF fresh] calls answer)
  have outside: "resize_and_style env0 b g = [Plain (str ''-resize''), Plain (str ''3200x1800'')]"
    "add_overlay_mask env0 p = []"
    "resize_output env0 = [Plain (str ''-resize''), Plain (str ''3200x1800'')]" for b g p
    by (simp_all add: env0_def)
  have fields: "y ?c = 47" "font_file ?c = TITLE_FONT env0"
    by (simp_all add: init_def kw0_def)
  have lines: "length (splitlines (title_text ?c)) = 1"
    by (simp add: init_def kw0_def env0_def str_texts escape0_plain splitlines_def
          is_linebreak_def)
  have spacing: "font_interline_spacing ?c = - 50"
    by (simp add: init_def kw0_def)
  have f: "fonts (fst (create_commands env0 ?c))
     = [ EPISODE_TEXT_FONT env0, EPISODE_TEXT_FONT_INFILL env0, EPISODE_TEXT_FONT_GEARS env0,
         TITLE_FONT env0, TITLE_FONT_INFILL env0, TITLE_FONT_GEARS env0 ]"
    using order [THEN conjunct2] shown
    by (simp add: order [THEN conjunct1] fonts_append outside gradient_commands_def fields)
  have a: "map fst (annotations (fst (create_commands env0 ?c))) = [137, 137, 137, 47, 47, 47]"
    by (simp add: order [THEN conjunct1] annotations_append outside gradient_commands_def
          index_shown [OF shown] height fields title_text_commands_def
          title_text_infill_commands_def title_text_gears_commands_def)
  have m: "measurements (image_magick (create env0 ?c))
     = [(title_text_commands ?c, - 50, 1)]"
    by (simp add: create_shown [OF shown] measurements_append
          get_title_dimensions_None [OF fresh] calls lines spacing)
  from f a m show ?thesis by simp
qed

section \<open>Interline spacing\<close>

text \<open>
  Claim C7. The constructor stores the interline spacing it is given minus 50; each of the
  three title layers passes the stored value to the renderer, the build does not change
  it, and the measurement of the title is asked with the same value. A spacing of 10
  gives -40.
\<close>

theorem interline_spacing_transform:
  "font_interline_spacing (init e kw) = kw_font_interline_spacing kw - 50
   \<and> interline_spacings (title_text_commands c) = [font_interline_spacing c]
   \<and> interline_spacings (title_text_infill_commands e c) = [font_interline_spacing c]
   \<and> interline_spacings (title_text_gears_commands e c) = [font_interline_spacing c]
   \<and> font_interline_spacing (create e c) = font_interline_spacing c
   \<and> measurements (image_magick (snd (get_title_dimensions e (init e kw))))
       = [(title_text_commands (init e kw), kw_font_interline_spacing kw - 50,
           length (splitlines (escape_chars e (kw_title_text kw))))]
   \<and> font_interline_spacing (init e (kw \<lparr> kw_font_interline_spacing := 10 \<rparr>)) = - 40"
proof -
  have "measurements (image_magick (snd (get_title_dimensions e (init e kw))))
       = [(title_text_commands (init e kw), kw_font_interline_spacing kw - 50,
           length (splitlines (escape_chars e (kw_title_text kw))))]"
    by (simp add: get_title_dimensions_def Let_def init_def)
  then show ?thesis
    by (simp add: init_def title_text_commands_def title_text_infill_commands_def
          title_text_gears_commands_def create_keeps_texts)
qed

text \<open>On the sample card with a spacing of 10, each title layer carries -40.\<close>

theorem interline_spacing_transform_witness:
  "interline_spacings (title_text_commands
      (init env0 (kw0 \<lparr> kw_font_interline_spacing := 10 \<rparr>))) = [- 40]
   \<and> interline_spacings (title_text_infill_commands env0
      (init env0 (kw0 \<lparr> kw_font_interline_spacing := 10 \<rparr>))) = [- 40]
   \<and> interline_spacings (title_text_gears_commands env0
      (init env0 (kw0 \<lparr> kw_font_interline_spacing := 10 \<rparr>))) = [- 40]"
  using interline_spacing_transform
          [of env0 "kw0 \<lparr> kw_font_interline_spacing := 10 \<rparr>"
              "init env0 (kw0 \<lparr> kw_font_interline_spacing := 10 \<rparr>)"]
  by simp

section \<open>The three title layers\<close>

text \<open>
  Claim C8. The infill and gears title layers are the main title layer with the font
  (position 0) and the fill colour (position 6) replaced, so gravity, point size, kerning,
  interline spacing, offset and text are those of the main layer. On a constructed card
  the point size is 256 times the font size, and the text is the title escaped once: the
  constructor applies \<^verbatim>\<open>escape_chars\<close> once to the title, the season text and the
  episode text, the layers embed the stored text as it is, and the build leaves the
  three texts unchanged.
\<close>

theorem title_layers_identical:
  "title_text_infill_commands e c
     = (title_text_commands c) [0 := Font (TITLE_FONT_INFILL e), 6 := Fill TITLE_COLOR_INFILL]
   \<and> title_text_gears_commands e c
     = (title_text_commands c) [0 := Font (TITLE_FONT_GEARS e), 6 := Fill TITLE_COLOR_GEARS]
   \<and> title_text_commands (init e kw)
     = [ Font (kw_font_file kw), Gravity (str ''south''),
         Pointsize (256 * kw_font_size kw), Kerning 0,
         Interline_Spacing (kw_font_interline_spacing kw - 50),
         Background (str ''transparent''), Fill (kw_font_color kw),
         Annotate (47 + kw_font_vertical_shift kw) (escape_chars e (kw_title_text kw)) ]
   \<and> season_text (init e kw) = escape_chars e (kw_season_text kw)
   \<and> episode_text (init e kw) = escape_chars e (kw_episode_text kw)
   \<and> title_text (create e c) = title_text c
   \<and> season_text (create e c) = season_text c
   \<and> episode_text (create e c) = episode_text c"
  by (simp add: title_text_commands_def title_text_infill_commands_def
        title_text_gears_commands_def init_def create_keeps_texts numeral_eq_Suc)

text \<open>
  A title with a double quote: each layer embeds the quote escaped once, where a second
  escaping would have given another text.
\<close>

theorem title_layers_identical_witness:
  "annotations (title_text_commands (init env0 (kw0 \<lparr> kw_title_text := [65, 34, 66] \<rparr>)))
     = [(47, [65, 92, 34, 66])]
   \<and> annotations (title_text_infill_commands env0
        (init env0 (kw0 \<lparr> kw_title_text := [65, 34, 66] \<rparr>))) = [(47, [65, 92, 34, 66])]
   \<and> annotations (title_text_gears_commands env0
        (init env0 (kw0 \<lparr> kw_title_text := [65, 34, 66] \<rparr>))) = [(47, [65, 92, 34, 66])]
   \<and> escape0 [65, 92, 34, 66] = [65, 92, 92, 34, 66]"
proof -
  let ?kw = "kw0 \<lparr> kw_title_text := [65, 34, 66] \<rparr>"
  note layers = title_layers_identical [of env0 "init env0 ?kw" ?kw]
  have escaped: "escape_chars env0 [65, 34, 66] = [65, 92, 34, 66]"
    and twice: "escape0 [65, 92, 34, 66] = [65, 92, 92, 34, 66]"
    by (simp_all add: env0_def escape0_def)
  have shift: "kw_font_vertical_shift ?kw = 0" and title: "kw_title_text ?kw = [65, 34, 66]"
    by (simp_all add: kw0_def)
  have updated: "[a, b, c, d, f, g, h, k] [0 := p, 6 := q] = [p, b, c, d, f, g, q, k]"
    for a b c d f g h k p q :: command
    by (simp add: numeral_eq_Suc)
  have main_layer: "title_text_commands (init env0 ?kw)
      = [ Font (kw_font_file ?kw), Gravity (str ''south''),
          Pointsize (256 * kw_font_size ?kw), Kerning 0,
          Interline_Spacing (kw_font_interline_spacing ?kw - 50),
          Background (str ''transparent''), Fill (kw_font_color ?kw),
          Annotate 47 [65, 92, 34, 66] ]"
    using layers [THEN conjunct2, THEN conjunct2, THEN conjunct1]
    by (simp add: shift title escaped)
  have main: "annotations (title_text_commands (init env0 ?kw)) = [(47, [65, 92, 34, 66])]"
    by (simp add: main_layer)
  have infill: "annotations (title_text_infill_commands env0 (init env0 ?kw))
      = [(47, [65, 92, 34, 66])]"
    by (simp add: layers [THEN conjunct1] main_layer updated)
  have gears: "annotations (title_text_gears_commands env0 (init env0 ?kw))
      = [(47, [65, 92, 34, 66])]"
    by (simp add: layers [THEN conjunct2, THEN conjunct1] main_layer updated)
  from main infill gears twice show ?thesis by simp
qed

section \<open>The static methods\<close>

text \<open>
  Claim C9. Whatever font and extras it is given, \<^verbatim>\<open>is_custom_font\<close> raises the
  \<^verbatim>\<open>NameError\<close> for \<^verbatim>\<open>FontPreviewTitleCard\<close>, a name the module neither defines nor
  imports; it never returns a boolean.
\<close>

theorem is_custom_font_name_error:
  "is_custom_font font_preview_is_custom_font font extras
     = Inl (NameError ''FontPreviewTitleCard'')
   \<and> \<not> (\<exists>b. is_custom_font font_preview_is_custom_font font extras = Inr b)"
  by (simp add: is_custom_font_def module_globals_def)

text \<open>
  Claim C10. \<^verbatim>\<open>SEASON_TEXT_FORMATTER\<close> returns \<^verbatim>\<open>SPECIALS\<close> for season 0 and otherwise
  the literal \<^verbatim>\<open>SEASON {season_number}\<close>, placeholder included; for a season other than
  0 the decimal form of the season number does not occur in the result.
\<close>

theorem season_text_formatter:
  "SEASON_TEXT_FORMATTER episode_info
     = (if season_number episode_info = 0 then str ''SPECIALS''
        else str ''SEASON {season_number}'')
   \<and> (season_number episode_info \<noteq> 0 \<longrightarrow>
        \<not> sublist (str_int (season_number episode_info))
            (SEASON_TEXT_FORMATTER episode_info))"
proof -
  have "\<not> sublist (str_int i) (str ''SEASON {season_number}'')" for i
  proof
    assume "sublist (str_int i) (str ''SEASON {season_number}'')"
    then have "set (str_int i) \<subseteq> set (str ''SEASON {season_number}'')"
      by (rule set_mono_sublist)
    with str_int_has_digit [of i] placeholder_has_no_digit show False
      by blast
  qed
  then show ?thesis
    by (simp add: SEASON_TEXT_FORMATTER_def)
qed

text \<open>Season 0 and season 3: the digit 3 is not in the text returned for season 3.\<close>

theorem season_text_formatter_witness:
  "SEASON_TEXT_FORMATTER \<lparr> season_number = 0 \<rparr> = str ''SPECIALS''
   \<and> SEASON_TEXT_FORMATTER \<lparr> season_number = 3 \<rparr> = str ''SEASON {season_number}''
   \<and> str_int 3 = [51]
   \<and> \<not> sublist [51] (SEASON_TEXT_FORMATTER \<lparr> season_number = 3 \<rparr>)"
proof -
  have three: "str_int 3 = [51]"
    by (simp add: str_int_def digits.simps)
  have specials: "SEASON_TEXT_FORMATTER \<lparr> season_number = 0 \<rparr> = str ''SPECIALS''"
    using season_text_formatter [of "\<lparr> season_number = 0 \<rparr>", THEN conjunct1] by simp
  have season: "SEASON_TEXT_FORMATTER \<lparr> season_number = 3 \<rparr> = str ''SEASON {season_number}''"
    using season_text_formatter [of "\<lparr> season_number = 3 \<rparr>", THEN conjunct1] by simp
  have absent: "\<not> sublist (str_int 3) (SEASON_TEXT_FORMATTER \<lparr> season_number = 3 \<rparr>)"
    using season_text_formatter [of "\<lparr> season_number = 3 \<rparr>", THEN conjunct2] by simp
  from specials season absent show ?thesis
    unfolding three by blast
qed

end
